theory Spec2Isabelle
  imports Main
begin

section \<open>The discovery server: data model\<close>

text \<open>
  The discovery package drives an IPFS node through its library interfaces. Every call
  into a library (file system, IPFS repository, content store, libp2p host, DHT, JSON
  decoder) is a field of an environment record: the model fixes nothing about what the
  library answers, only what the discovery code does with the answer. Calls that matter
  for ordering are logged, in program order, as a list of events.
\<close>

type_synonym bytes = string

text \<open>
  A Go \<open>error\<close> value: one handed back by a library (identified by its message), one
  built by \<open>fmt.Errorf\<close> (format string and arguments), or \<open>errors.Wrap(err, msg)\<close>.
\<close>

datatype error =
    Ext string
  | Errorf string "string list"
  | Wrap error string

text \<open>How a call ends: it returns, it blocks for ever, or it panics.\<close>

datatype 'a run = Returned 'a | Blocked | Panicked

datatype ipath = IPath string
datatype ufile = UFile string
datatype cid = Cid string
datatype repo = Repo string
datatype ipfsNode = IpfsNode (hostID: string)
datatype dhtH = DhtH string
datatype stream = Stream string

type_synonym multiaddr = string

text \<open>\<open>PeerInfo\<close>: the \<open>IP\<close> slice is \<open>None\<close> when it is nil.\<close>

record PeerInfo =
  NodeID :: string
  IP :: "string list option"
  TendermintP2PPort :: int

text \<open>\<open>NetworkInfo\<close>: the image is an open stream, not its content.\<close>

record NetworkInfo =
  Manifest :: bytes
  Genesis :: bytes
  Image_rc :: ufile

text \<open>A provider record of the DHT (\<open>pstore.PeerInfo\<close>).\<close>

record addrInfo =
  ID :: string
  Addrs :: "multiaddr list"

text \<open>
  The readiness channel \<open>connectedCh\<close> carries no value: all that matters is whether
  it has been closed. A receive on it blocks while it is open and returns at once when
  it is closed.
\<close>

datatype chan = ChOpen | ChClosed

text \<open>
  The server. \<open>node\<close>, \<open>dht\<close> and \<open>api\<close> are nil (\<open>None\<close>) until \<open>Start\<close> sets
  them; \<open>api\<close> is the node seen through the core API.
\<close>

record Server =
  root :: string
  port :: int
  node :: "ipfsNode option"
  dht :: "dhtH option"
  api :: "ipfsNode option"
  connectedCh :: chan

text \<open>
  The calls that a run makes, as events:
  \<^item> \<open>UiInfo\<close>, \<open>UiError\<close>: a message of the user interface, by its format string;
  \<^item> \<open>RepoOpened\<close>, \<open>NodeStarted\<close>: \<open>fsrepo.Open\<close> and \<open>core.NewNode\<close> have
    returned a handle;
  \<^item> \<open>GoDhtConnect\<close>: the statement \<open>go s.dhtConnect(ctx)\<close>;
  \<^item> \<open>ConnectCall\<close>: \<open>PeerHost.Connect\<close> to an entry peer;
  \<^item> \<open>CloseConnectedCh\<close>: \<open>close(s.connectedCh)\<close>;
  \<^item> \<open>SetStreamHandler\<close>: the registration of the handler that writes the given
    record, under the given protocol;
  \<^item> \<open>Provide\<close>: \<open>dht.Provide\<close> with the timeout of its context (in nanoseconds)
    and its flag;
  \<^item> \<open>FindProvidersAsync\<close>: the query, with the timeout of its context and its limit;
  \<^item> \<open>NewStream\<close>: \<open>PeerHost.NewStream\<close> to a peer under a protocol;
  \<^item> \<open>Send\<close>: a record received by the consumer of the output channel of \<open>Peers\<close>;
  \<^item> \<open>CloseCh\<close>: the \<open>close\<close> of that channel;
  \<^item> \<open>Link\<close>: \<open>os.Link\<close> from a source to a target;
  \<^item> \<open>UnixfsAdd\<close>, \<open>UnixfsGet\<close>: \<open>Unixfs().Add\<close> and \<open>Unixfs().Get\<close>.
\<close>

datatype event =
    UiInfo string
  | UiError string
  | RepoOpened repo
  | NodeStarted ipfsNode
  | GoDhtConnect
  | ConnectCall string
  | CloseConnectedCh
  | SetStreamHandler string PeerInfo
  | Provide cid nat bool
  | FindProvidersAsync cid nat nat
  | NewStream string string
  | Send PeerInfo
  | CloseCh
  | Link string string
  | UnixfsAdd ufile
  | UnixfsGet "ipath option"

definition emit :: "event \<Rightarrow> event list \<times> 'a \<Rightarrow> event list \<times> 'a" where
  "emit e r = (e # fst r, snd r)"

section \<open>Content publisher and resolver\<close>

text \<open>
  The content store and the file system, as \<open>Publish\<close> and \<open>Join\<close> call them.
  \<open>pathJoin\<close> is Go's \<open>path.Join\<close>. \<open>unixfsGet\<close> takes \<open>None\<close> for a nil
  \<open>Path\<close>, which is what \<open>iface.ParsePath\<close> returns beside an error.
\<close>

record store_env =
  pathJoin :: "string list \<Rightarrow> string"
  tempDir :: "error + string"
  osStat :: "string \<Rightarrow> error + string"
  osLink :: "string \<Rightarrow> string \<Rightarrow> error option"
  newSerialFile :: "string \<Rightarrow> string \<Rightarrow> bool \<Rightarrow> string \<Rightarrow> error + ufile"
  unixfsAdd :: "ufile \<Rightarrow> error + cid"
  cidString :: "cid \<Rightarrow> string"
  parsePath :: "string \<Rightarrow> error + ipath"
  unixfsGet :: "ipath option \<Rightarrow> error + ufile"
  readAll :: "ufile \<Rightarrow> error + bytes"

text \<open>
  \<open>Publish\<close> (part_001, lines 181-213): a temporary directory, three hard links into
  it, one \<open>Add\<close> of the directory. The empty identifier that the source returns
  beside an error is left out: the result is the error or the identifier.
\<close>

definition Publish ::
  "store_env \<Rightarrow> string \<Rightarrow> string \<Rightarrow> string \<Rightarrow> event list \<times> (error + string)" where
  "Publish env manifestPath genesisPath imagePath =
    (case tempDir env of
       Inl err \<Rightarrow> ([], Inl err)
     | Inr sandbox \<Rightarrow>
    (case osStat env sandbox of
       Inl err \<Rightarrow> ([], Inl err)
     | Inr st \<Rightarrow>
    emit (Link manifestPath (pathJoin env [sandbox, ''chainkit.yml'']))
    (case osLink env manifestPath (pathJoin env [sandbox, ''chainkit.yml'']) of
       Some err \<Rightarrow> ([], Inl err)
     | None \<Rightarrow>
    emit (Link genesisPath (pathJoin env [sandbox, ''genesis.json'']))
    (case osLink env genesisPath (pathJoin env [sandbox, ''genesis.json'']) of
       Some err \<Rightarrow> ([], Inl err)
     | None \<Rightarrow>
    emit (Link imagePath (pathJoin env [sandbox, ''image.tgz'']))
    (case osLink env imagePath (pathJoin env [sandbox, ''image.tgz'']) of
       Some err \<Rightarrow> ([], Inl err)
     | None \<Rightarrow>
    (case newSerialFile env ''network'' sandbox False st of
       Inl err \<Rightarrow> ([], Inl err)
     | Inr f \<Rightarrow>
    emit (UnixfsAdd f)
    (case unixfsAdd env f of
       Inl err \<Rightarrow> ([], Inl err)
     | Inr p \<Rightarrow> ([], Inr (cidString env p)))))))))"

text \<open>
  \<open>Join\<close> (part_001, lines 216-256). The error of the third \<open>ParsePath\<close> is
  overwritten by the \<open>Get\<close> that follows it, so that \<open>Get\<close> runs on whatever path
  came back, nil included. The image is fetched and not read.
\<close>

definition Join :: "store_env \<Rightarrow> string \<Rightarrow> event list \<times> (error + NetworkInfo)" where
  "Join env chainID =
    (case parsePath env (pathJoin env [''/ipfs'', chainID, ''chainkit.yml'']) of
       Inl err \<Rightarrow> ([], Inl err)
     | Inr manifestPath \<Rightarrow>
    emit (UnixfsGet (Some manifestPath))
    (case unixfsGet env (Some manifestPath) of
       Inl err \<Rightarrow> ([], Inl err)
     | Inr manifestFile \<Rightarrow>
    (case readAll env manifestFile of
       Inl err \<Rightarrow> ([], Inl (Wrap err ''unable to read genesis file''))
     | Inr manifestData \<Rightarrow>
    (case parsePath env (pathJoin env [''/ipfs'', chainID, ''genesis.json'']) of
       Inl err \<Rightarrow> ([], Inl err)
     | Inr genesisPath \<Rightarrow>
    emit (UnixfsGet (Some genesisPath))
    (case unixfsGet env (Some genesisPath) of
       Inl err \<Rightarrow> ([], Inl err)
     | Inr genesisFile \<Rightarrow>
    (case readAll env genesisFile of
       Inl err \<Rightarrow> ([], Inl (Wrap err ''unable to read genesis file''))
     | Inr genesisData \<Rightarrow>
    (let imagePath =
       (case parsePath env (pathJoin env [''/ipfs'', chainID, ''image.tgz'']) of
          Inl err \<Rightarrow> None
        | Inr p \<Rightarrow> Some p)
     in
    emit (UnixfsGet imagePath)
    (case unixfsGet env imagePath of
       Inl err \<Rightarrow> ([], Inl err)
     | Inr imageFile \<Rightarrow>
       ([], Inr \<lparr>Manifest = manifestData, Genesis = genesisData,
                 Image_rc = imageFile\<rparr>)))))))))"

section \<open>Lifecycle\<close>

definition nBitsForKeypairDefault :: nat where
  "nBitsForKeypairDefault = 4096"

definition bootstrapPeers :: "string list" where
  "bootstrapPeers =
    [''/ip4/104.131.131.82/tcp/4001/ipfs/QmaCpDMGvV2BGHeYERUEnRQAwe3N8SzbUtfsmvsqQLuvuJ'',
     ''/ip4/104.236.179.241/tcp/4001/ipfs/QmSoLPppuBtQSGwKDZT2M73ULpjvfd3aZ6ha4oFGL1KrGM'',
     ''/ip4/104.236.76.40/tcp/4001/ipfs/QmSoLV4Bbm51jM9C4gDYZQ9Cy3U6aXMJDAbzgu2fzaDs64'',
     ''/ip4/128.199.219.111/tcp/4001/ipfs/QmSoLSafTMBsPKadTEgaXctDQVcqN88CNLHXMkTNwMKPnu'',
     ''/ip4/178.62.158.247/tcp/4001/ipfs/QmSoLer265NRgSp2LA3dPaeykiS1J6DifTC88f5uVQKNAd'']"

text \<open>The IPFS configuration, as far as \<open>ipfsInit\<close> touches it.\<close>

record config =
  Identity :: string
  AddressesAPI :: "string list"
  AddressesGateway :: "string list"

text \<open>
  The repository and node constructors that \<open>Start\<close> calls. A listen address is kept
  as the pair of its format string and the port that \<open>fmt.Sprintf\<close> fills in.
\<close>

record node_env =
  pathJoinR :: "string list \<Rightarrow> string"
  lockedByOtherProcess :: "string \<Rightarrow> error + bool"
  loadPlugins :: "string \<Rightarrow> error option"
  isInitialized :: "string \<Rightarrow> bool"
  configInit :: "nat \<Rightarrow> error + config"
  fsrepoInit :: "string \<Rightarrow> config \<Rightarrow> error option"
  fsrepoOpen :: "string \<Rightarrow> error + repo"
  setConfigKey :: "repo \<Rightarrow> string \<Rightarrow> (string \<times> int) list \<Rightarrow> error option"
  newNode :: "bool \<Rightarrow> repo \<Rightarrow> error + ipfsNode"
  dhtNew :: "ipfsNode \<Rightarrow> error + dhtH"

definition New :: "string \<Rightarrow> int \<Rightarrow> Server" where
  "New r p = \<lparr>root = r, port = p, node = None, dht = None, api = None,
              connectedCh = ChOpen\<rparr>"

definition ipfsInit :: "node_env \<Rightarrow> Server \<Rightarrow> error option" where
  "ipfsInit env s =
    (case configInit env nBitsForKeypairDefault of
       Inl err \<Rightarrow> Some err
     | Inr conf \<Rightarrow>
         fsrepoInit env (root s) (conf\<lparr>AddressesAPI := [], AddressesGateway := []\<rparr>))"

text \<open>
  \<open>Start\<close> (part_001, lines 101-153). The result is the error (\<open>None\<close> for nil) and
  the server as the call leaves it. \<open>RepoOpened\<close> and \<open>NodeStarted\<close> log the two
  handles that the call acquires; \<open>GoDhtConnect\<close> is the \<open>go\<close> statement.
\<close>

definition Start :: "node_env \<Rightarrow> Server \<Rightarrow> event list \<times> error option \<times> Server" where
  "Start env s =
    emit (UiInfo ''Initializing node...'')
    (case lockedByOtherProcess env (root s) of
       Inl err \<Rightarrow> ([], Some err, s)
     | Inr daemonLocked \<Rightarrow>
    (if daemonLocked
     then ([], Some (Errorf ''another instance is already accessing %q'' [root s]), s)
     else
    (case loadPlugins env (pathJoinR env [root s, ''plugins'']) of
       Some err \<Rightarrow> ([], Some err, s)
     | None \<Rightarrow>
    (case (if \<not> isInitialized env (root s) then ipfsInit env s else None) of
       Some err \<Rightarrow> ([], Some err, s)
     | None \<Rightarrow>
    (case fsrepoOpen env (root s) of
       Inl err \<Rightarrow> ([], Some err, s)
     | Inr rp \<Rightarrow>
    emit (RepoOpened rp)
    (case setConfigKey env rp ''Addresses.Swarm''
            [(''/ip4/0.0.0.0/tcp/%d'', port s), (''/ip6/::/tcp/%d'', port s)] of
       Some err \<Rightarrow> ([], Some err, s)
     | None \<Rightarrow>
    (case newNode env True rp of
       Inl err \<Rightarrow> ([], Some err, s\<lparr>node := None\<rparr>)
     | Inr n \<Rightarrow>
    emit (NodeStarted n)
    (case dhtNew env n of
       Inl err \<Rightarrow> ([], Some err, s\<lparr>node := Some n, api := Some n, dht := None\<rparr>)
     | Inr d \<Rightarrow>
       ([GoDhtConnect], None, s\<lparr>node := Some n, api := Some n, dht := Some d\<rparr>)))))))))"

text \<open>
  What a trace leaves open: a handle is retained from the event that acquires it on.
  The calls modelled here make no call that closes a repository or a node.
\<close>

datatype handle = RepoHandle repo | NodeHandle ipfsNode

fun retained :: "event list \<Rightarrow> handle list" where
  "retained [] = []"
| "retained (RepoOpened r # evs) = RepoHandle r # retained evs"
| "retained (NodeStarted n # evs) = NodeHandle n # retained evs"
| "retained (e # evs) = retained evs"

section \<open>Bootstrap, announce, find peers\<close>

text \<open>
  The libp2p host, the DHT and the JSON decoder. \<open>connect\<close> is given the address
  string of the entry peer (the two parsers between are library code whose errors the
  source drops). \<open>findProvidersAsync\<close> answers with the provider records that arrive on
  the DHT's channel before the DHT closes it. Every call of the record returns: a call
  that never returns (a stream that opens and stays silent, say) is outside the model,
  and what is proved of a run is proved of the runs in which these calls return.
\<close>

record net_env =
  connect :: "ipfsNode \<Rightarrow> string \<Rightarrow> error option"
  cidDecode :: "string \<Rightarrow> error + cid"
  provide :: "dhtH \<Rightarrow> cid \<Rightarrow> bool \<Rightarrow> error option"
  findProvidersAsync :: "dhtH \<Rightarrow> cid \<Rightarrow> nat \<Rightarrow> addrInfo list"
  newStream :: "ipfsNode \<Rightarrow> string \<Rightarrow> string \<Rightarrow> error + stream"
  decode :: "stream \<Rightarrow> error + PeerInfo"
  valueForProtocol :: "multiaddr \<Rightarrow> nat \<Rightarrow> error + string"

text \<open>\<open>time.Second\<close>, in nanoseconds, and the protocol code \<open>multiaddr.P_IP4\<close>.\<close>

definition Second :: nat where
  "Second = 1000000000"

definition P_IP4 :: nat where
  "P_IP4 = 4"

text \<open>The loop of \<open>dhtConnect\<close> over the entry peers: a failure is logged, no more.\<close>

fun dhtConnect_loop :: "net_env \<Rightarrow> ipfsNode \<Rightarrow> string list \<Rightarrow> event list" where
  "dhtConnect_loop env n [] = []"
| "dhtConnect_loop env n (peerAddr # rest) =
    ConnectCall peerAddr #
    (case connect env n peerAddr of
       Some err \<Rightarrow>
         UiError ''Connection with bootstrap node %v failed: %v'' # dhtConnect_loop env n rest
     | None \<Rightarrow> dhtConnect_loop env n rest)"

text \<open>
  \<open>dhtConnect\<close> (part_001, lines 166-178). The deferred \<open>close\<close> runs when the loop is
  over; closing a channel that is closed already panics, and so does the loop on a nil
  node.
\<close>

definition dhtConnect :: "net_env \<Rightarrow> Server \<Rightarrow> (event list \<times> Server) run" where
  "dhtConnect env s =
    (case node s of
       None \<Rightarrow> Panicked
     | Some n \<Rightarrow>
        (case connectedCh s of
           ChClosed \<Rightarrow> Panicked
         | ChOpen \<Rightarrow>
             Returned (dhtConnect_loop env n bootstrapPeers @ [CloseConnectedCh],
                       s\<lparr>connectedCh := ChClosed\<rparr>)))"

text \<open>
  \<open>Announce\<close> (part_001, lines 259-283). The receive on \<open>connectedCh\<close> blocks until
  the channel is closed. \<open>Provide\<close> logs the identifier, the timeout of its context and
  the broadcast flag.
\<close>

definition Announce ::
  "net_env \<Rightarrow> Server \<Rightarrow> string \<Rightarrow> PeerInfo \<Rightarrow> (event list \<times> error option) run" where
  "Announce env s chainID peer =
    (case connectedCh s of
       ChOpen \<Rightarrow> Blocked
     | ChClosed \<Rightarrow>
    (case cidDecode env chainID of
       Inl err \<Rightarrow> Returned ([], Some err)
     | Inr c \<Rightarrow>
    (case node s of
       None \<Rightarrow> Panicked
     | Some n \<Rightarrow>
    (case dht s of
       None \<Rightarrow> Panicked
     | Some d \<Rightarrow>
       Returned
         (emit (SetStreamHandler ''/chainkit/0.1.0'' peer)
         (emit (Provide c (10 * Second) True)
         (case provide env d c True of
            Some err \<Rightarrow> ([], Some err)
          | None \<Rightarrow> ([], None))))))))"

text \<open>Go's \<open>append\<close> of one element: the result is never nil.\<close>

definition go_append :: "string list option \<Rightarrow> string \<Rightarrow> string list option" where
  "go_append xs v = Some ((case xs of None \<Rightarrow> [] | Some ys \<Rightarrow> ys) @ [v])"

fun append_ip4 ::
  "net_env \<Rightarrow> multiaddr list \<Rightarrow> string list option \<Rightarrow> string list option" where
  "append_ip4 env [] ip = ip"
| "append_ip4 env (addr # addrs) ip =
    (case valueForProtocol env addr P_IP4 of
       Inl err \<Rightarrow> append_ip4 env addrs ip
     | Inr v \<Rightarrow>
        (if v = [] then append_ip4 env addrs ip
         else append_ip4 env addrs (go_append ip v)))"

text \<open>
  The body of the loop of \<open>Peers\<close> for one provider record (part_001, lines 304-326),
  up to the send: the record to send, if there is one.
\<close>

definition Peers_exchange ::
  "net_env \<Rightarrow> ipfsNode \<Rightarrow> addrInfo \<Rightarrow> event list \<times> PeerInfo option" where
  "Peers_exchange env n p =
    (if ID p \<noteq> hostID n \<and> length (Addrs p) > 0 then
       emit (NewStream (ID p) ''/chainkit/0.1.0'')
       (case newStream env n (ID p) ''/chainkit/0.1.0'' of
          Inl err \<Rightarrow> ([], None)
        | Inr st \<Rightarrow>
           (case decode env st of
              Inl err \<Rightarrow> ([UiError ''failed to decode: %v''], None)
            | Inr peer \<Rightarrow>
               (let peer1 = (if IP peer = None then peer\<lparr>IP := Some []\<rparr> else peer)
                in ([], Some (peer1\<lparr>IP := append_ip4 env (Addrs p) (IP peer1)\<rparr>)))))
     else ([], None))"

text \<open>
  The loop over the provider records. The output channel is unbuffered and the send on
  it (line 328) has no alternative: it completes when the consumer receives. \<open>d\<close> is
  the number of records the consumer still receives; with none left the send never
  completes, and the flag of the result is \<open>False\<close>.
\<close>

fun Peers_loop :: "net_env \<Rightarrow> ipfsNode \<Rightarrow> nat \<Rightarrow> addrInfo list \<Rightarrow> event list \<times> bool" where
  "Peers_loop env n d [] = ([], True)"
| "Peers_loop env n d (p # ps) =
    (case snd (Peers_exchange env n p) of
       None \<Rightarrow>
         (fst (Peers_exchange env n p) @ fst (Peers_loop env n d ps),
          snd (Peers_loop env n d ps))
     | Some peer \<Rightarrow>
        (case d of
           0 \<Rightarrow> (fst (Peers_exchange env n p), False)
         | Suc d' \<Rightarrow>
            (fst (Peers_exchange env n p) @ Send peer # fst (Peers_loop env n d' ps),
             snd (Peers_loop env n d' ps))))"

datatype task_end = ChannelClosed | BlockedOnSend | TaskPanicked

text \<open>
  The goroutine of \<open>Peers\<close> (part_001, lines 296-331). \<open>FindProvidersAsync\<close> logs the
  identifier, the timeout of its context and the limit. The deferred \<open>close(ch)\<close> runs
  when the loop is over, and on a panic (a nil \<open>dht\<close>, or a nil \<open>node\<close> at the first
  record).
\<close>

definition Peers_task :: "net_env \<Rightarrow> Server \<Rightarrow> cid \<Rightarrow> nat \<Rightarrow> event list \<times> task_end" where
  "Peers_task env s c d =
    (case dht s of
       None \<Rightarrow> ([CloseCh], TaskPanicked)
     | Some dh \<Rightarrow>
    emit (FindProvidersAsync c (10 * Second) 10)
    (case node s of
       None \<Rightarrow>
         (if findProvidersAsync env dh c 10 = [] then ([CloseCh], ChannelClosed)
          else ([CloseCh], TaskPanicked))
     | Some n \<Rightarrow>
        (if snd (Peers_loop env n d (findProvidersAsync env dh c 10))
         then (fst (Peers_loop env n d (findProvidersAsync env dh c 10)) @ [CloseCh],
               ChannelClosed)
         else (fst (Peers_loop env n d (findProvidersAsync env dh c 10)), BlockedOnSend))))"

text \<open>
  \<open>Peers\<close> (part_001, lines 286-334). The channel it returns is given by the run of
  the goroutine that feeds it, against a consumer that receives at most \<open>d\<close> records.
\<close>

definition Peers ::
  "net_env \<Rightarrow> Server \<Rightarrow> string \<Rightarrow> nat \<Rightarrow> (error + event list \<times> task_end) run" where
  "Peers env s chainID d =
    (case connectedCh s of
       ChOpen \<Rightarrow> Blocked
     | ChClosed \<Rightarrow>
        (case cidDecode env chainID of
           Inl err \<Rightarrow> Returned (Inl err)
         | Inr c \<Rightarrow> Returned (Inr (Peers_task env s c d))))"

text \<open>The records that a trace delivers on the output channel, in order.\<close>

fun sent :: "event list \<Rightarrow> PeerInfo list" where
  "sent [] = []"
| "sent (Send r # evs) = r # sent evs"
| "sent (e # evs) = sent evs"

section \<open>Observations used in the statements\<close>

text \<open>
  What \<open>Join\<close> gets for the manifest and the genesis (parse the path, then fetch; a parse
  error ends the call), and for the image (fetch on whatever the parse gave).
\<close>

definition fetched :: "store_env \<Rightarrow> string \<Rightarrow> string \<Rightarrow> error + ufile" where
  "fetched env chainID name =
    (case parsePath env (pathJoin env [''/ipfs'', chainID, name]) of
       Inl err \<Rightarrow> Inl err
     | Inr p \<Rightarrow> unixfsGet env (Some p))"

definition fetched_image :: "store_env \<Rightarrow> string \<Rightarrow> error + ufile" where
  "fetched_image env chainID =
    unixfsGet env
      (case parsePath env (pathJoin env [''/ipfs'', chainID, ''image.tgz'']) of
         Inl err \<Rightarrow> None
       | Inr p \<Rightarrow> Some p)"

text \<open>The hard links and the fetches of a trace, in order.\<close>

fun links :: "event list \<Rightarrow> (string \<times> string) list" where
  "links [] = []"
| "links (Link src dst # evs) = (src, dst) # links evs"
| "links (e # evs) = links evs"

fun gets :: "event list \<Rightarrow> ipath option list" where
  "gets [] = []"
| "gets (UnixfsGet p # evs) = p # gets evs"
| "gets (e # evs) = gets evs"

text \<open>The entry peers that a trace tries, and how often it closes the readiness channel.\<close>

fun connects :: "event list \<Rightarrow> string list" where
  "connects [] = []"
| "connects (ConnectCall a # evs) = a # connects evs"
| "connects (e # evs) = connects evs"

fun closes :: "event list \<Rightarrow> nat" where
  "closes [] = 0"
| "closes (CloseConnectedCh # evs) = Suc (closes evs)"
| "closes (e # evs) = closes evs"

text \<open>The peers to which a trace opens a stream.\<close>

fun dialled :: "event list \<Rightarrow> string list" where
  "dialled [] = []"
| "dialled (NewStream pid proto # evs) = pid # dialled evs"
| "dialled (e # evs) = dialled evs"

text \<open>The IPv4 values among the addresses of a provider record, in order.\<close>

fun ip4_values :: "net_env \<Rightarrow> multiaddr list \<Rightarrow> string list" where
  "ip4_values env [] = []"
| "ip4_values env (addr # addrs) =
    (case valueForProtocol env addr P_IP4 of
       Inl err \<Rightarrow> ip4_values env addrs
     | Inr v \<Rightarrow> (if v = [] then ip4_values env addrs else v # ip4_values env addrs))"

text \<open>
  A provider record that answers: it is not the local node, it has an address, its stream
  opens and its reply decodes.
\<close>

definition answers :: "net_env \<Rightarrow> ipfsNode \<Rightarrow> addrInfo \<Rightarrow> bool" where
  "answers env n p =
    (ID p \<noteq> hostID n \<and> Addrs p \<noteq> [] \<and>
     (case newStream env n (ID p) ''/chainkit/0.1.0'' of
        Inl err \<Rightarrow> False
      | Inr st \<Rightarrow> (case decode env st of Inl err \<Rightarrow> False | Inr peer \<Rightarrow> True)))"

section \<open>Concrete environments\<close>

fun slash_join :: "string list \<Rightarrow> string" where
  "slash_join [] = []"
| "slash_join [x] = x"
| "slash_join (x # y # ys) = x @ ''/'' @ slash_join (y # ys)"

text \<open>A store that holds every path: a file is named by its path, and reads as it.\<close>

definition store_ok :: store_env where
  "store_ok =
    \<lparr>pathJoin = slash_join,
     tempDir = Inr ''/tmp/chainkit-network1'',
     osStat = (\<lambda>p. Inr p),
     osLink = (\<lambda>src dst. None),
     newSerialFile = (\<lambda>name p hidden st. Inr (UFile p)),
     unixfsAdd = (\<lambda>f. Inr (Cid ''QmX'')),
     cidString = (\<lambda>c. case c of Cid x \<Rightarrow> x),
     parsePath = (\<lambda>p. Inr (IPath p)),
     unixfsGet = (\<lambda>p. case p of None \<Rightarrow> Inl (Ext ''nil path'')
                            | Some (IPath q) \<Rightarrow> Inr (UFile q)),
     readAll = (\<lambda>f. case f of UFile q \<Rightarrow> Inr q)\<rparr>"

text \<open>The same store with an image whose stream fails when it is read.\<close>

definition store_bad_image :: store_env where
  "store_bad_image =
    store_ok\<lparr>readAll := (\<lambda>f. if f = UFile ''/ipfs/QmX/image.tgz''
                                then Inl (Ext ''unexpected EOF'')
                                else readAll store_ok f)\<rparr>"

text \<open>The same store with a manifest whose stream fails when it is read.\<close>

definition store_bad_manifest :: store_env where
  "store_bad_manifest =
    store_ok\<lparr>readAll := (\<lambda>f. if f = UFile ''/ipfs/QmX/chainkit.yml''
                                then Inl (Ext ''unexpected EOF'')
                                else readAll store_ok f)\<rparr>"

text \<open>The same store with no genesis under \<open>QmX\<close>.\<close>

definition store_no_genesis :: store_env where
  "store_no_genesis =
    store_ok\<lparr>unixfsGet := (\<lambda>p. if p = Some (IPath ''/ipfs/QmX/genesis.json'')
                                  then Inl (Ext ''merkledag: not found'')
                                  else unixfsGet store_ok p)\<rparr>"

text \<open>A repository that opens, a node and a DHT that start.\<close>

definition node_ok :: node_env where
  "node_ok =
    \<lparr>pathJoinR = slash_join,
     lockedByOtherProcess = (\<lambda>r. Inr False),
     loadPlugins = (\<lambda>p. None),
     isInitialized = (\<lambda>r. True),
     configInit = (\<lambda>bits. Inr \<lparr>Identity = ''QmLocal'', AddressesAPI = [''/ip4/127.0.0.1/tcp/5001''],
                                 AddressesGateway = [''/ip4/127.0.0.1/tcp/8080'']\<rparr>),
     fsrepoInit = (\<lambda>r conf. None),
     fsrepoOpen = (\<lambda>r. Inr (Repo r)),
     setConfigKey = (\<lambda>rp k v. None),
     newNode = (\<lambda>online rp. Inr (IpfsNode ''QmLocal'')),
     dhtNew = (\<lambda>n. Inr (DhtH ''dht''))\<rparr>"

text \<open>The same, with a repository that refuses the listen addresses.\<close>

definition node_cfg_fail :: node_env where
  "node_cfg_fail = node_ok\<lparr>setConfigKey := (\<lambda>rp k v. Some (Ext ''failed to write config''))\<rparr>"

text \<open>The same, with a DHT that does not start.\<close>

definition node_dht_fail :: node_env where
  "node_dht_fail = node_ok\<lparr>dhtNew := (\<lambda>n. Inl (Ext ''dht: no listen address''))\<rparr>"

text \<open>The server that \<open>Start\<close> leaves, before and after the bootstrap task has run.\<close>

definition srv_online :: Server where
  "srv_online =
    \<lparr>root = ''/r'', port = 4001, node = Some (IpfsNode ''QmLocal''),
     dht = Some (DhtH ''dht''), api = Some (IpfsNode ''QmLocal''), connectedCh = ChOpen\<rparr>"

definition srv_ready :: Server where
  "srv_ready = srv_online\<lparr>connectedCh := ChClosed\<rparr>"

text \<open>What the local node announces about itself.\<close>

definition peer_local :: PeerInfo where
  "peer_local = \<lparr>NodeID = ''tm-local'', IP = Some [], TendermintP2PPort = 26656\<rparr>"

text \<open>
  A network on which no entry peer can be reached. The DHT knows six providers: the local
  node, one that answers, one without an address, one whose stream does not open, one
  whose reply does not decode, and one more that answers.
\<close>

definition net_ok :: net_env where
  "net_ok =
    \<lparr>connect = (\<lambda>n a. Some (Ext ''dial backoff'')),
     cidDecode = (\<lambda>s. if s = [] then Inl (Ext ''cid too short'') else Inr (Cid s)),
     provide = (\<lambda>d c b. None),
     findProvidersAsync = (\<lambda>d c k.
       [\<lparr>ID = ''QmLocal'', Addrs = [''/ip4/10.0.0.1/tcp/4001'']\<rparr>,
        \<lparr>ID = ''QmA'', Addrs = [''/ip4/10.0.0.2/tcp/4001'']\<rparr>,
        \<lparr>ID = ''QmB'', Addrs = []\<rparr>,
        \<lparr>ID = ''QmC'', Addrs = [''/ip4/10.0.0.4/tcp/4001'']\<rparr>,
        \<lparr>ID = ''QmD'', Addrs = [''/ip4/10.0.0.5/tcp/4001'']\<rparr>,
        \<lparr>ID = ''QmE'', Addrs = [''/ip6/::1/tcp/4001'', ''/ip4/10.0.0.6/tcp/4001'']\<rparr>]),
     newStream = (\<lambda>n pid proto. if pid = ''QmC'' then Inl (Ext ''dial failed'')
                                   else Inr (Stream pid)),
     decode = (\<lambda>st. case st of Stream pid \<Rightarrow>
                 if pid = ''QmD'' then Inl (Ext ''invalid character'')
                 else Inr \<lparr>NodeID = pid, IP = None, TendermintP2PPort = 26656\<rparr>),
     valueForProtocol = (\<lambda>a code.
       case map_of [(''/ip4/10.0.0.1/tcp/4001'', ''10.0.0.1''),
                    (''/ip4/10.0.0.2/tcp/4001'', ''10.0.0.2''),
                    (''/ip4/10.0.0.4/tcp/4001'', ''10.0.0.4''),
                    (''/ip4/10.0.0.5/tcp/4001'', ''10.0.0.5''),
                    (''/ip4/10.0.0.6/tcp/4001'', ''10.0.0.6'')] a of
         None \<Rightarrow> Inl (Ext ''protocol not found'')
       | Some v \<Rightarrow> Inr v)\<rparr>"

text \<open>The same network, on which every peer replies with the local node's name.\<close>

definition net_echo :: net_env where
  "net_echo =
    net_ok\<lparr>decode := (\<lambda>st. Inr \<lparr>NodeID = ''QmLocal'', IP = None,
                                    TendermintP2PPort = 26656\<rparr>)\<rparr>"

section \<open>Join: which failures end the call\<close>

text \<open>
  C1, as stated, fails, twice. An identifier without a genesis: \<open>Join\<close> fails with the
  error of the store as it is, which here names no artifact and is no error type of
  \<open>Join\<close>. An image that is published but cannot be read: \<open>Join\<close> does not fail; the
  image is handed over as the open stream, unread, beside the manifest and the genesis.
\<close>

theorem Join_failures_counterexample:
  "fetched store_no_genesis ''QmX'' ''genesis.json'' = Inl (Ext ''merkledag: not found'')
   \<and> snd (Join store_no_genesis ''QmX'') = Inl (Ext ''merkledag: not found'')
   \<and> readAll store_bad_image (UFile ''/ipfs/QmX/image.tgz'') = Inl (Ext ''unexpected EOF'')
   \<and> snd (Join store_bad_image ''QmX'') =
       Inr \<lparr>Manifest = ''/ipfs/QmX/chainkit.yml'', Genesis = ''/ipfs/QmX/genesis.json'',
            Image_rc = UFile ''/ipfs/QmX/image.tgz''\<rparr>"
  by (simp add: Join_def fetched_def store_no_genesis_def store_bad_image_def store_ok_def
      emit_def)

text \<open>
  C1, amended. \<open>Join\<close> returns an error and no \<open>NetworkInfo\<close> when the manifest or the
  genesis cannot be fetched or cannot be read, and when the image cannot be fetched. An
  error of a fetch is returned as the store gave it; a genesis that cannot be read is
  reported as \<open>unable to read genesis file\<close>. With all three fetched and the first two
  read, the call succeeds whatever a read of the image would give.
\<close>

theorem Join_failure_paths:
  "(fetched env c ''chainkit.yml'' = Inl e \<longrightarrow> snd (Join env c) = Inl e)
   \<and> (fetched env c ''chainkit.yml'' = Inr mf \<and> readAll env mf = Inl e
        \<longrightarrow> isl (snd (Join env c)))
   \<and> (fetched env c ''chainkit.yml'' = Inr mf \<and> readAll env mf = Inr m \<longrightarrow>
        (fetched env c ''genesis.json'' = Inl e \<longrightarrow> snd (Join env c) = Inl e)
      \<and> (fetched env c ''genesis.json'' = Inr gf \<and> readAll env gf = Inl e
           \<longrightarrow> snd (Join env c) = Inl (Wrap e ''unable to read genesis file''))
      \<and> (fetched env c ''genesis.json'' = Inr gf \<and> readAll env gf = Inr g \<longrightarrow>
           (fetched_image env c = Inl e \<longrightarrow> snd (Join env c) = Inl e)
         \<and> (fetched_image env c = Inr f \<longrightarrow>
              snd (Join env c) = Inr \<lparr>Manifest = m, Genesis = g, Image_rc = f\<rparr>)))"
  by (auto simp add: Join_def fetched_def fetched_image_def emit_def split: sum.splits)

text \<open>
  C1, witness: an identifier with a manifest and no genesis. \<open>Join\<close> returns the store's
  error for the genesis, and nothing else.
\<close>

theorem Join_failure_paths_witness:
  "fetched store_no_genesis ''QmX'' ''chainkit.yml'' = Inr (UFile ''/ipfs/QmX/chainkit.yml'')
   \<and> readAll store_no_genesis (UFile ''/ipfs/QmX/chainkit.yml'') = Inr ''/ipfs/QmX/chainkit.yml''
   \<and> fetched store_no_genesis ''QmX'' ''genesis.json'' = Inl (Ext ''merkledag: not found'')
   \<and> snd (Join store_no_genesis ''QmX'') = Inl (Ext ''merkledag: not found'')"
proof -
  have a: "fetched store_no_genesis ''QmX'' ''chainkit.yml'' = Inr (UFile ''/ipfs/QmX/chainkit.yml'')"
    by (simp add: fetched_def store_no_genesis_def store_ok_def)
  have b: "readAll store_no_genesis (UFile ''/ipfs/QmX/chainkit.yml'') = Inr ''/ipfs/QmX/chainkit.yml''"
    by (simp add: store_no_genesis_def store_ok_def)
  have c: "fetched store_no_genesis ''QmX'' ''genesis.json'' = Inl (Ext ''merkledag: not found'')"
    by (simp add: fetched_def store_no_genesis_def store_ok_def)
  from Join_failure_paths [of store_no_genesis "''QmX''" "Ext ''merkledag: not found''"
      "UFile ''/ipfs/QmX/chainkit.yml''" "''/ipfs/QmX/chainkit.yml''"] a b c
  have "snd (Join store_no_genesis ''QmX'') = Inl (Ext ''merkledag: not found'')"
    by blast
  with a b c show ?thesis by simp
qed

text \<open>
  The label on a manifest that cannot be read (line 227) is the one written for the
  genesis (line 240).
\<close>

lemma Join_manifest_read_label:
  "snd (Join store_bad_manifest ''QmX'') =
     Inl (Wrap (Ext ''unexpected EOF'') ''unable to read genesis file'')"
  by (simp add: Join_def store_bad_manifest_def store_ok_def emit_def)

section \<open>Projections of a trace\<close>

lemma sent_append: "sent (xs @ ys) = sent xs @ sent ys"
  by (induction xs rule: sent.induct) simp_all

lemma dialled_append: "dialled (xs @ ys) = dialled xs @ dialled ys"
  by (induction xs rule: dialled.induct) simp_all

lemma connects_append: "connects (xs @ ys) = connects xs @ connects ys"
  by (induction xs rule: connects.induct) simp_all

lemma closes_append: "closes (xs @ ys) = closes xs + closes ys"
  by (induction xs rule: closes.induct) simp_all

section \<open>The loop of Peers, record by record\<close>

lemma exchange_sent: "sent (fst (Peers_exchange env n p)) = []"
  by (simp add: Peers_exchange_def emit_def Let_def split: sum.splits)

lemma exchange_Some_iff: "(snd (Peers_exchange env n p) \<noteq> None) = answers env n p"
  by (auto simp add: Peers_exchange_def answers_def emit_def Let_def split: sum.splits)

lemma exchange_dialled:
  "dialled (fst (Peers_exchange env n p)) =
     (if ID p \<noteq> hostID n \<and> Addrs p \<noteq> [] then [ID p] else [])"
  by (simp add: Peers_exchange_def emit_def Let_def split: sum.splits)

lemma loop_sent:
  "sent (fst (Peers_loop env n d ps)) =
     take d (List.map_filter (\<lambda>p. snd (Peers_exchange env n p)) ps)"
proof (induction ps arbitrary: d)
  case Nil
  then show ?case by (simp add: List.map_filter_simps)
next
  case (Cons p ps)
  show ?case
  proof (cases "snd (Peers_exchange env n p)")
    case None
    then show ?thesis
      by (simp add: Cons sent_append exchange_sent List.map_filter_simps)
  next
    case (Some r)
    then show ?thesis
      by (cases d) (simp_all add: Cons sent_append exchange_sent List.map_filter_simps)
  qed
qed

lemma loop_flag:
  "snd (Peers_loop env n d ps) =
     (length (List.map_filter (\<lambda>p. snd (Peers_exchange env n p)) ps) \<le> d)"
proof (induction ps arbitrary: d)
  case Nil
  then show ?case by (simp add: List.map_filter_simps)
next
  case (Cons p ps)
  show ?case
  proof (cases "snd (Peers_exchange env n p)")
    case None
    then show ?thesis by (simp add: Cons List.map_filter_simps)
  next
    case (Some r)
    then show ?thesis by (cases d) (simp_all add: Cons List.map_filter_simps)
  qed
qed

lemma map_filter_answers:
  "List.map_filter (\<lambda>p. snd (Peers_exchange env n p)) ps =
     map (\<lambda>p. the (snd (Peers_exchange env n p))) (filter (answers env n) ps)"
proof -
  have "answers env n = (\<lambda>p. snd (Peers_exchange env n p) \<noteq> None)"
    by (rule ext) (simp only: exchange_Some_iff)
  then show ?thesis
    by (simp add: List.map_filter_def comp_def)
qed

lemma loop_dialled: "set (dialled (fst (Peers_loop env n d ps))) \<subseteq> {pid. pid \<noteq> hostID n}"
proof (induction ps arbitrary: d)
  case Nil
  then show ?case by simp
next
  case (Cons p ps)
  show ?case
  proof (cases "snd (Peers_exchange env n p)")
    case None
    then show ?thesis using Cons [of d]
      by (auto simp add: dialled_append exchange_dialled split: if_splits)
  next
    case (Some r)
    then show ?thesis using Cons
      by (cases d) (auto simp add: dialled_append exchange_dialled split: if_splits)
  qed
qed


section \<open>Publish and Join: the names of the three artifacts\<close>

text \<open>
  C2, as stated, fails: the children are not named \<open>manifest\<close>, \<open>genesis\<close> and
  \<open>image\<close>. \<open>Publish\<close> links the three files into the staged directory as
  \<open>chainkit.yml\<close>, \<open>genesis.json\<close> and \<open>image.tgz\<close>, and \<open>Join\<close> fetches these.
\<close>

theorem Publish_names_counterexample:
  "snd (Publish store_ok ''/p/chainkit.yml'' ''/p/genesis.json'' ''/p/image.tgz'') = Inr ''QmX''
   \<and> map snd (links (fst (Publish store_ok ''/p/chainkit.yml'' ''/p/genesis.json''
          ''/p/image.tgz''))) =
       [''/tmp/chainkit-network1/chainkit.yml'', ''/tmp/chainkit-network1/genesis.json'',
        ''/tmp/chainkit-network1/image.tgz'']
   \<and> map snd (links (fst (Publish store_ok ''/p/chainkit.yml'' ''/p/genesis.json''
          ''/p/image.tgz''))) \<noteq>
       [pathJoin store_ok [''/tmp/chainkit-network1'', ''manifest''],
        pathJoin store_ok [''/tmp/chainkit-network1'', ''genesis''],
        pathJoin store_ok [''/tmp/chainkit-network1'', ''image'']]
   \<and> gets (fst (Join store_ok ''QmX'')) =
       [Some (IPath ''/ipfs/QmX/chainkit.yml''), Some (IPath ''/ipfs/QmX/genesis.json''),
        Some (IPath ''/ipfs/QmX/image.tgz'')]"
  by (simp add: Publish_def Join_def store_ok_def emit_def)

text \<open>
  C2, amended. A \<open>Publish\<close> that succeeds has linked the manifest, the genesis and the
  image, in this order, into one fresh directory under the names \<open>chainkit.yml\<close>,
  \<open>genesis.json\<close> and \<open>image.tgz\<close>, has added that directory to the content store as
  its last call, and returns the identifier of what the store answered. A \<open>Join\<close> that
  succeeds has fetched the children of these three names under its identifier.
\<close>

theorem Publish_Join_file_names:
  "(snd (Publish env m g i) = Inr x \<longrightarrow>
      (\<exists>sandbox st f p.
          tempDir env = Inr sandbox \<and> osStat env sandbox = Inr st
        \<and> links (fst (Publish env m g i)) =
            [(m, pathJoin env [sandbox, ''chainkit.yml'']),
             (g, pathJoin env [sandbox, ''genesis.json'']),
             (i, pathJoin env [sandbox, ''image.tgz''])]
        \<and> newSerialFile env ''network'' sandbox False st = Inr f
        \<and> last (fst (Publish env m g i)) = UnixfsAdd f
        \<and> unixfsAdd env f = Inr p \<and> x = cidString env p))
   \<and> (snd (Join env c) = Inr ni \<longrightarrow>
      (\<exists>pm pg.
          parsePath env (pathJoin env [''/ipfs'', c, ''chainkit.yml'']) = Inr pm
        \<and> parsePath env (pathJoin env [''/ipfs'', c, ''genesis.json'']) = Inr pg
        \<and> gets (fst (Join env c)) =
            [Some pm, Some pg,
             (case parsePath env (pathJoin env [''/ipfs'', c, ''image.tgz'']) of
                Inl err \<Rightarrow> None | Inr q \<Rightarrow> Some q)]))"
proof (intro conjI impI)
  assume "snd (Publish env m g i) = Inr x"
  then show "\<exists>sandbox st f p.
          tempDir env = Inr sandbox \<and> osStat env sandbox = Inr st
        \<and> links (fst (Publish env m g i)) =
            [(m, pathJoin env [sandbox, ''chainkit.yml'']),
             (g, pathJoin env [sandbox, ''genesis.json'']),
             (i, pathJoin env [sandbox, ''image.tgz''])]
        \<and> newSerialFile env ''network'' sandbox False st = Inr f
        \<and> last (fst (Publish env m g i)) = UnixfsAdd f
        \<and> unixfsAdd env f = Inr p \<and> x = cidString env p"
    by (auto simp add: Publish_def emit_def split: sum.splits option.splits)
next
  assume "snd (Join env c) = Inr ni"
  then show "\<exists>pm pg.
          parsePath env (pathJoin env [''/ipfs'', c, ''chainkit.yml'']) = Inr pm
        \<and> parsePath env (pathJoin env [''/ipfs'', c, ''genesis.json'']) = Inr pg
        \<and> gets (fst (Join env c)) =
            [Some pm, Some pg,
             (case parsePath env (pathJoin env [''/ipfs'', c, ''image.tgz'']) of
                Inl err \<Rightarrow> None | Inr q \<Rightarrow> Some q)]"
    by (auto simp add: Join_def emit_def Let_def split: sum.splits)
qed

text \<open>
  C2, witness: a publication into a store that accepts it, and the join of its
  identifier.
\<close>

theorem Publish_Join_file_names_witness:
  "snd (Publish store_ok ''/p/chainkit.yml'' ''/p/genesis.json'' ''/p/image.tgz'') = Inr ''QmX''
   \<and> links (fst (Publish store_ok ''/p/chainkit.yml'' ''/p/genesis.json'' ''/p/image.tgz'')) =
       [(''/p/chainkit.yml'', ''/tmp/chainkit-network1/chainkit.yml''),
        (''/p/genesis.json'', ''/tmp/chainkit-network1/genesis.json''),
        (''/p/image.tgz'', ''/tmp/chainkit-network1/image.tgz'')]
   \<and> isl (snd (Join store_ok ''QmX'')) = False
   \<and> gets (fst (Join store_ok ''QmX'')) =
       [Some (IPath ''/ipfs/QmX/chainkit.yml''), Some (IPath ''/ipfs/QmX/genesis.json''),
        Some (IPath ''/ipfs/QmX/image.tgz'')]"
proof -
  have p: "snd (Publish store_ok ''/p/chainkit.yml'' ''/p/genesis.json'' ''/p/image.tgz'') =
      Inr ''QmX''"
    by (simp add: Publish_def store_ok_def emit_def)
  have j: "snd (Join store_ok ''QmX'') =
      Inr \<lparr>Manifest = ''/ipfs/QmX/chainkit.yml'', Genesis = ''/ipfs/QmX/genesis.json'',
           Image_rc = UFile ''/ipfs/QmX/image.tgz''\<rparr>"
    by (simp add: Join_def store_ok_def emit_def)
  have t: "tempDir store_ok = Inr ''/tmp/chainkit-network1''"
    and pp: "parsePath store_ok = (\<lambda>q. Inr (IPath q))"
    and pj: "pathJoin store_ok = slash_join"
    by (simp_all add: store_ok_def)
  from Publish_Join_file_names [of store_ok "''/p/chainkit.yml''" "''/p/genesis.json''"
      "''/p/image.tgz''" "''QmX''" "''QmX''"
      "\<lparr>Manifest = ''/ipfs/QmX/chainkit.yml'', Genesis = ''/ipfs/QmX/genesis.json'',
           Image_rc = UFile ''/ipfs/QmX/image.tgz''\<rparr>"] p j
  show ?thesis
    by (auto simp add: t pp pj)
qed

section \<open>Bootstrap: the readiness signal\<close>

lemma loop_connects: "connects (dhtConnect_loop env n ps) = ps"
  by (induction ps) (simp_all split: option.splits)

lemma loop_closes: "closes (dhtConnect_loop env n ps) = 0"
  by (induction ps) (simp_all split: option.splits)

text \<open>
  A start that succeeds has stored the node and the DHT, launches the bootstrap task as
  its last action, and leaves the readiness channel as it found it: open, on a server
  that \<open>New\<close> made.
\<close>

lemma Start_launches_bootstrap:
  assumes "Start env s = (evs, None, s')"
  shows "last evs = GoDhtConnect \<and> closes evs = 0 \<and> connectedCh s' = connectedCh s
    \<and> (\<exists>n dh. node s' = Some n \<and> api s' = Some n \<and> dht s' = Some dh)"
  using assms unfolding Start_def emit_def
  by (auto split: sum.splits option.splits if_splits)

text \<open>On \<open>node_ok\<close> it leaves \<open>srv_online\<close>.\<close>

lemma Start_node_ok:
  "Start node_ok (New ''/r'' 4001) =
     ([UiInfo ''Initializing node...'', RepoOpened (Repo ''/r''),
       NodeStarted (IpfsNode ''QmLocal''), GoDhtConnect], None, srv_online)"
  by (simp add: Start_def node_ok_def New_def srv_online_def emit_def)

text \<open>
  C3. On the server that \<open>Start\<close> leaves (its node set, its readiness channel open),
  the bootstrap task tries each of the five entry peers, in order, whatever each
  connection attempt answers, and then closes the readiness channel, once, as its last
  action. Until then \<open>Announce\<close> and \<open>Peers\<close> block at their first statement, before any
  call into the DHT; from then on neither blocks there.
\<close>

theorem dhtConnect_signals_once:
  assumes "node s = Some n" and "connectedCh s = ChOpen"
  shows "\<exists>pre. dhtConnect env s = Returned (pre @ [CloseConnectedCh], s\<lparr>connectedCh := ChClosed\<rparr>)
           \<and> connects pre = bootstrapPeers \<and> length bootstrapPeers = 5 \<and> closes pre = 0
           \<and> Announce env s c p = Blocked \<and> Peers env s c d = Blocked
           \<and> Announce env (s\<lparr>connectedCh := ChClosed\<rparr>) c p \<noteq> Blocked
           \<and> Peers env (s\<lparr>connectedCh := ChClosed\<rparr>) c d \<noteq> Blocked"
proof -
  have run: "dhtConnect env s =
      Returned (dhtConnect_loop env n bootstrapPeers @ [CloseConnectedCh],
                s\<lparr>connectedCh := ChClosed\<rparr>)"
    using assms by (simp add: dhtConnect_def)
  have five: "length bootstrapPeers = 5"
    by (simp add: bootstrapPeers_def)
  have before: "Announce env s c p = Blocked" "Peers env s c d = Blocked"
    using assms by (simp_all add: Announce_def Peers_def)
  have after: "Announce env (s\<lparr>connectedCh := ChClosed\<rparr>) c p \<noteq> Blocked"
    using assms by (simp add: Announce_def split: sum.splits option.splits)
  have after': "Peers env (s\<lparr>connectedCh := ChClosed\<rparr>) c d \<noteq> Blocked"
    by (simp add: Peers_def split: sum.splits)
  from run five before after after' show ?thesis
    by (simp add: loop_connects loop_closes)
qed

text \<open>
  C3, witness: the bootstrap task on a network where no entry peer can be reached.
\<close>

theorem dhtConnect_signals_once_witness:
  "node srv_online = Some (IpfsNode ''QmLocal'') \<and> connectedCh srv_online = ChOpen
   \<and> (\<exists>pre. dhtConnect net_ok srv_online = Returned (pre @ [CloseConnectedCh], srv_ready)
          \<and> connects pre = bootstrapPeers \<and> closes pre = 0
          \<and> length (filter (\<lambda>a. connect net_ok (IpfsNode ''QmLocal'') a = None) bootstrapPeers) = 0)
   \<and> Peers net_ok srv_online ''QmX'' 10 = Blocked
   \<and> Peers net_ok srv_ready ''QmX'' 10 \<noteq> Blocked"
proof -
  have a: "node srv_online = Some (IpfsNode ''QmLocal'')" and b: "connectedCh srv_online = ChOpen"
    by (simp_all add: srv_online_def)
  have z: "length (filter (\<lambda>a. connect net_ok (IpfsNode ''QmLocal'') a = None) bootstrapPeers) = 0"
    by (simp add: net_ok_def)
  from dhtConnect_signals_once [OF a b, of net_ok "''QmX''" peer_local 10] a b z
  show ?thesis
    by (auto simp add: srv_ready_def)
qed

section \<open>Start: what a failed start leaves\<close>

text \<open>
  C5, as stated, fails: when the repository opens and then refuses the listen addresses,
  \<open>Start\<close> returns the error and the repository stays open.
\<close>

theorem Start_keeps_repository_counterexample:
  "fst (snd (Start node_cfg_fail (New ''/r'' 4001))) = Some (Ext ''failed to write config'')
   \<and> retained (fst (Start node_cfg_fail (New ''/r'' 4001))) = [RepoHandle (Repo ''/r'')]"
  by (simp add: Start_def node_cfg_fail_def node_ok_def New_def emit_def)

text \<open>The three places at which \<open>Start\<close> can fail, by what it has acquired.\<close>

lemma Start_error_cases:
  assumes "Start env s = (evs, Some e, s')"
  shows "(evs = [UiInfo ''Initializing node...''] \<and> s' = s)
       \<or> (\<exists>rp. fsrepoOpen env (root s) = Inr rp
             \<and> evs = [UiInfo ''Initializing node...'', RepoOpened rp]
             \<and> (s' = s \<or> s' = s\<lparr>node := None\<rparr>))
       \<or> (\<exists>rp n. fsrepoOpen env (root s) = Inr rp \<and> newNode env True rp = Inr n
             \<and> dhtNew env n = Inl e
             \<and> evs = [UiInfo ''Initializing node...'', RepoOpened rp, NodeStarted n]
             \<and> s' = s\<lparr>node := Some n, api := Some n, dht := None\<rparr>)"
  using assms unfolding Start_def emit_def
  by (simp split: sum.splits option.splits if_splits) 

text \<open>
  C5, amended. A \<open>Start\<close> that returns an error has not launched the bootstrap task and
  has not touched the readiness channel, the root or the port, and it releases nothing.
  Failing before the repository is open, it has acquired nothing and leaves the server
  as it was. Failing at the listen addresses or at the node, it leaves the repository
  open and stores no node. Failing at the DHT, it leaves the repository and the node
  open, with the node stored in the server.
\<close>

theorem Start_error_retains:
  assumes "Start env s = (evs, Some e, s')"
  shows "GoDhtConnect \<notin> set evs \<and> connectedCh s' = connectedCh s
    \<and> root s' = root s \<and> port s' = port s
    \<and> ((evs = [UiInfo ''Initializing node...''] \<and> retained evs = [] \<and> s' = s)
       \<or> (\<exists>rp. fsrepoOpen env (root s) = Inr rp
             \<and> evs = [UiInfo ''Initializing node...'', RepoOpened rp]
             \<and> retained evs = [RepoHandle rp]
             \<and> (s' = s \<or> s' = s\<lparr>node := None\<rparr>))
       \<or> (\<exists>rp n. fsrepoOpen env (root s) = Inr rp \<and> newNode env True rp = Inr n
             \<and> dhtNew env n = Inl e
             \<and> evs = [UiInfo ''Initializing node...'', RepoOpened rp, NodeStarted n]
             \<and> retained evs = [RepoHandle rp, NodeHandle n]
             \<and> node s' = Some n \<and> api s' = Some n \<and> dht s' = None))"
proof -
  consider
    (early) "evs = [UiInfo ''Initializing node...'']" "s' = s"
  | (repo) rp where "fsrepoOpen env (root s) = Inr rp"
      "evs = [UiInfo ''Initializing node...'', RepoOpened rp]"
      "s' = s \<or> s' = s\<lparr>node := None\<rparr>"
  | (dht) rp n where "fsrepoOpen env (root s) = Inr rp" "newNode env True rp = Inr n"
      "dhtNew env n = Inl e"
      "evs = [UiInfo ''Initializing node...'', RepoOpened rp, NodeStarted n]"
      "s' = s\<lparr>node := Some n, api := Some n, dht := None\<rparr>"
    using Start_error_cases [OF assms] by blast
  then show ?thesis
  proof cases
    case early
    then show ?thesis by simp
  next
    case repo
    then show ?thesis by auto
  next
    case dht
    then show ?thesis by simp
  qed
qed

text \<open>C5, witness: a start on which the DHT fails.\<close>

theorem Start_error_retains_witness:
  "Start node_dht_fail (New ''/r'' 4001) =
     ([UiInfo ''Initializing node...'', RepoOpened (Repo ''/r''),
       NodeStarted (IpfsNode ''QmLocal'')],
      Some (Ext ''dht: no listen address''),
      (New ''/r'' 4001)\<lparr>node := Some (IpfsNode ''QmLocal''),
                          api := Some (IpfsNode ''QmLocal''), dht := None\<rparr>)
   \<and> retained [UiInfo ''Initializing node...'', RepoOpened (Repo ''/r''),
                NodeStarted (IpfsNode ''QmLocal'')] =
       [RepoHandle (Repo ''/r''), NodeHandle (IpfsNode ''QmLocal'')]"
proof -
  have run: "Start node_dht_fail (New ''/r'' 4001) =
     ([UiInfo ''Initializing node...'', RepoOpened (Repo ''/r''),
       NodeStarted (IpfsNode ''QmLocal'')],
      Some (Ext ''dht: no listen address''),
      (New ''/r'' 4001)\<lparr>node := Some (IpfsNode ''QmLocal''),
                          api := Some (IpfsNode ''QmLocal''), dht := None\<rparr>)"
    by (simp add: Start_def node_dht_fail_def node_ok_def New_def emit_def)
  from Start_error_retains [OF run] run show ?thesis
    by auto
qed

section \<open>Announce: the handler before the provider record\<close>

text \<open>
  C6. An \<open>Announce\<close> that returns has either failed to decode the identifier, with no
  call made, or has made exactly two calls in this order: the registration of the
  stream handler on \<open>/chainkit/0.1.0\<close> for the given record, then \<open>Provide\<close> with a
  timeout of ten seconds, whose answer it returns. So in every successful call the
  handler is registered before \<open>Provide\<close> is issued.
\<close>

theorem Announce_handler_before_provide:
  assumes "Announce env s chainID peer = Returned (evs, r)"
  shows "(\<exists>err. cidDecode env chainID = Inl err \<and> r = Some err \<and> evs = [])
       \<or> (\<exists>c dh. cidDecode env chainID = Inr c \<and> dht s = Some dh
             \<and> r = provide env dh c True
             \<and> evs = [SetStreamHandler ''/chainkit/0.1.0'' peer,
                      Provide c (10 * Second) True])"
  using assms
  by (auto simp add: Announce_def emit_def split: chan.splits sum.splits option.splits)

text \<open>C6, witness: an announce that succeeds.\<close>

theorem Announce_handler_before_provide_witness:
  "Announce net_ok srv_ready ''QmX'' peer_local =
     Returned ([SetStreamHandler ''/chainkit/0.1.0'' peer_local,
                Provide (Cid ''QmX'') (10 * Second) True], None)"
proof -
  have run: "Announce net_ok srv_ready ''QmX'' peer_local =
      Returned ([SetStreamHandler ''/chainkit/0.1.0'' peer_local,
                 Provide (Cid ''QmX'') (10 * Second) True], None)"
    by (simp add: Announce_def net_ok_def srv_ready_def srv_online_def emit_def)
  from Announce_handler_before_provide [OF run] run show ?thesis
    by simp
qed

section \<open>Peers: the exchange with one provider\<close>

lemma append_ip4_Some: "append_ip4 env as (Some xs) = Some (xs @ ip4_values env as)"
  by (induction as arbitrary: xs) (simp_all add: go_append_def split: sum.splits)

lemma exchange_Some:
  assumes "snd (Peers_exchange env n p) = Some r"
  shows "ID p \<noteq> hostID n \<and> Addrs p \<noteq> [] \<and>
    (\<exists>st r0. newStream env n (ID p) ''/chainkit/0.1.0'' = Inr st \<and> decode env st = Inr r0
       \<and> r = r0\<lparr>IP := Some ((case IP r0 of None \<Rightarrow> [] | Some xs \<Rightarrow> xs)
                              @ ip4_values env (Addrs p))\<rparr>)"
  using assms
  by (auto simp add: Peers_exchange_def emit_def Let_def append_ip4_Some
      split: sum.splits if_splits)

lemma exchange_None_addressless: "Addrs p = [] \<Longrightarrow> Peers_exchange env n p = ([], None)"
  by (simp add: Peers_exchange_def)

lemma exchange_None_failed:
  assumes "newStream env n (ID b) ''/chainkit/0.1.0'' = Inl e
     \<or> (\<exists>st. newStream env n (ID b) ''/chainkit/0.1.0'' = Inr st \<and> decode env st = Inl e)"
  shows "snd (Peers_exchange env n b) = None"
  using assms by (auto simp add: Peers_exchange_def emit_def)

lemma loop_drop_silent:
  assumes "Peers_exchange env n p = ([], None)"
  shows "Peers_loop env n d (xs @ p # ys) = Peers_loop env n d (xs @ ys)"
proof (induction xs arbitrary: d)
  case Nil
  then show ?case using assms by simp
next
  case (Cons x xs)
  then show ?case by (simp split: option.splits nat.splits)
qed

lemma loop_sent_mem:
  assumes "r \<in> set (sent (fst (Peers_loop env n d ps)))"
  shows "\<exists>p \<in> set ps. snd (Peers_exchange env n p) = Some r"
proof -
  from assms have "r \<in> set (List.map_filter (\<lambda>p. snd (Peers_exchange env n p)) ps)"
    by (auto simp add: loop_sent dest: in_set_takeD)
  then show ?thesis
    by (auto simp add: List.map_filter_def)
qed

lemma loop_no_close: "CloseCh \<notin> set (fst (Peers_loop env n d ps))"
proof (induction ps arbitrary: d)
  case Nil
  then show ?case by simp
next
  case (Cons p ps)
  have ex: "CloseCh \<notin> set (fst (Peers_exchange env n p))"
    by (simp add: Peers_exchange_def emit_def Let_def split: sum.splits)
  show ?case
  proof (cases "snd (Peers_exchange env n p)")
    case None
    then show ?thesis using Cons [of d] ex by simp
  next
    case (Some r)
    then show ?thesis using Cons ex by (cases d) simp_all
  qed
qed

lemma task_sent:
  "sent (fst (Peers_task env s c d)) =
     (case (dht s, node s) of
        (Some dh, Some n) \<Rightarrow> sent (fst (Peers_loop env n d (findProvidersAsync env dh c 10)))
      | _ \<Rightarrow> [])"
  by (simp add: Peers_task_def emit_def sent_append split: option.splits)

lemma task_dialled:
  "dialled (fst (Peers_task env s c d)) =
     (case (dht s, node s) of
        (Some dh, Some n) \<Rightarrow> dialled (fst (Peers_loop env n d (findProvidersAsync env dh c 10)))
      | _ \<Rightarrow> [])"
  by (simp add: Peers_task_def emit_def dialled_append split: option.splits)

lemma Peers_Returned:
  assumes "Peers env s chainID d = Returned (Inr (evs, fin))"
  shows "\<exists>c. connectedCh s = ChClosed \<and> cidDecode env chainID = Inr c
           \<and> Peers_task env s c d = (evs, fin)"
  using assms by (auto simp add: Peers_def split: chan.splits sum.splits)

section \<open>Peers: what is sent, to whom, and when the channel closes\<close>

text \<open>The concrete server and network, field by field.\<close>

lemma srv_ready_fields:
  "connectedCh srv_ready = ChClosed" "node srv_ready = Some (IpfsNode ''QmLocal'')"
  "dht srv_ready = Some (DhtH ''dht'')"
  by (simp_all add: srv_ready_def srv_online_def)

lemma net_ok_providers:
  "findProvidersAsync net_ok (DhtH ''dht'') (Cid ''QmX'') 10 =
     [\<lparr>ID = ''QmLocal'', Addrs = [''/ip4/10.0.0.1/tcp/4001'']\<rparr>,
      \<lparr>ID = ''QmA'', Addrs = [''/ip4/10.0.0.2/tcp/4001'']\<rparr>,
      \<lparr>ID = ''QmB'', Addrs = []\<rparr>]
     @ \<lparr>ID = ''QmC'', Addrs = [''/ip4/10.0.0.4/tcp/4001'']\<rparr>
     # [\<lparr>ID = ''QmD'', Addrs = [''/ip4/10.0.0.5/tcp/4001'']\<rparr>,
        \<lparr>ID = ''QmE'', Addrs = [''/ip6/::1/tcp/4001'', ''/ip4/10.0.0.6/tcp/4001'']\<rparr>]"
  by (simp add: net_ok_def)

lemma net_ok_answers:
  "filter (answers net_ok (IpfsNode ''QmLocal''))
     [\<lparr>ID = ''QmLocal'', Addrs = [''/ip4/10.0.0.1/tcp/4001'']\<rparr>,
      \<lparr>ID = ''QmA'', Addrs = [''/ip4/10.0.0.2/tcp/4001'']\<rparr>,
      \<lparr>ID = ''QmB'', Addrs = []\<rparr>,
      \<lparr>ID = ''QmC'', Addrs = [''/ip4/10.0.0.4/tcp/4001'']\<rparr>,
      \<lparr>ID = ''QmD'', Addrs = [''/ip4/10.0.0.5/tcp/4001'']\<rparr>,
      \<lparr>ID = ''QmE'', Addrs = [''/ip6/::1/tcp/4001'', ''/ip4/10.0.0.6/tcp/4001'']\<rparr>] =
     [\<lparr>ID = ''QmA'', Addrs = [''/ip4/10.0.0.2/tcp/4001'']\<rparr>,
      \<lparr>ID = ''QmE'', Addrs = [''/ip6/::1/tcp/4001'', ''/ip4/10.0.0.6/tcp/4001'']\<rparr>]"
  by (simp add: answers_def net_ok_def)

text \<open>A search on \<open>net_ok\<close> by a consumer that receives every record.\<close>

lemma Peers_net_ok:
  "Peers net_ok srv_ready ''QmX'' 10 =
     Returned (Inr
       ([FindProvidersAsync (Cid ''QmX'') (10 * Second) 10,
         NewStream ''QmA'' ''/chainkit/0.1.0'',
         Send \<lparr>NodeID = ''QmA'', IP = Some [''10.0.0.2''], TendermintP2PPort = 26656\<rparr>,
         NewStream ''QmC'' ''/chainkit/0.1.0'',
         NewStream ''QmD'' ''/chainkit/0.1.0'',
         UiError ''failed to decode: %v'',
         NewStream ''QmE'' ''/chainkit/0.1.0'',
         Send \<lparr>NodeID = ''QmE'', IP = Some [''10.0.0.6''], TendermintP2PPort = 26656\<rparr>,
         CloseCh], ChannelClosed))"
  by (simp add: Peers_def Peers_task_def Peers_exchange_def emit_def net_ok_def
      srv_ready_def srv_online_def Let_def go_append_def P_IP4_def)

text \<open>
  C4, as stated, fails: the \<open>NodeID\<close> of a record is what the remote peer wrote, and
  nothing compares it with the local identity. On \<open>net_echo\<close> three other peers reply
  with the local node's name, and all three records are sent.
\<close>

theorem Peers_local_name_counterexample:
  "node srv_ready = Some (IpfsNode ''QmLocal'')
   \<and> Peers net_echo srv_ready ''QmX'' 10 =
       Returned (Inr (Peers_task net_echo srv_ready (Cid ''QmX'') 10))
   \<and> map NodeID (sent (fst (Peers_task net_echo srv_ready (Cid ''QmX'') 10))) =
       [hostID (IpfsNode ''QmLocal''), hostID (IpfsNode ''QmLocal''),
        hostID (IpfsNode ''QmLocal'')]"
  by (simp add: Peers_def Peers_task_def Peers_exchange_def emit_def net_echo_def net_ok_def
      srv_ready_def srv_online_def Let_def go_append_def P_IP4_def)

text \<open>
  C4, amended. \<open>Peers\<close> never opens a stream to a provider whose DHT identity is the
  local node's, and every record it sends is the reply of a provider of the query whose
  DHT identity differs from the local node's, with the \<open>NodeID\<close> that this reply
  carries.
\<close>

theorem Peers_never_dials_self:
  assumes "Peers env s chainID d = Returned (Inr (evs, fin))" and "node s = Some n"
  shows "hostID n \<notin> set (dialled evs)
    \<and> (\<forall>r \<in> set (sent evs). \<exists>c dh p st r0.
          cidDecode env chainID = Inr c \<and> dht s = Some dh
        \<and> p \<in> set (findProvidersAsync env dh c 10) \<and> ID p \<noteq> hostID n
        \<and> newStream env n (ID p) ''/chainkit/0.1.0'' = Inr st \<and> decode env st = Inr r0
        \<and> NodeID r = NodeID r0)"
proof -
  from Peers_Returned [OF assms(1)] obtain c where
    c: "cidDecode env chainID = Inr c" and t: "Peers_task env s c d = (evs, fin)"
    by blast
  show ?thesis
  proof (cases "dht s")
    case None
    with t show ?thesis by (auto simp add: Peers_task_def)
  next
    case (Some dh)
    have d: "dialled evs = dialled (fst (Peers_loop env n d (findProvidersAsync env dh c 10)))"
      using task_dialled [of env s c d] t Some assms(2) by simp
    have s: "sent evs = sent (fst (Peers_loop env n d (findProvidersAsync env dh c 10)))"
      using task_sent [of env s c d] t Some assms(2) by simp
    have "hostID n \<notin> set (dialled evs)"
      using loop_dialled [of env n d "findProvidersAsync env dh c 10"] d by auto
    moreover have "\<exists>c dh p st r0.
          cidDecode env chainID = Inr c \<and> dht s = Some dh
        \<and> p \<in> set (findProvidersAsync env dh c 10) \<and> ID p \<noteq> hostID n
        \<and> newStream env n (ID p) ''/chainkit/0.1.0'' = Inr st \<and> decode env st = Inr r0
        \<and> NodeID r = NodeID r0" if "r \<in> set (sent evs)" for r
    proof -
      from that s loop_sent_mem obtain p where
        p: "p \<in> set (findProvidersAsync env dh c 10)" "snd (Peers_exchange env n p) = Some r"
        by metis
      from exchange_Some [OF p(2)] obtain st r0 where
        "ID p \<noteq> hostID n" "newStream env n (ID p) ''/chainkit/0.1.0'' = Inr st"
        "decode env st = Inr r0" "NodeID r = NodeID r0"
        by auto
      with c Some p(1) show ?thesis by blast
    qed
    ultimately show ?thesis by blast
  qed
qed

text \<open>
  C4, witness: on \<open>net_ok\<close> the DHT lists the local node first; it is not dialled.
\<close>

theorem Peers_never_dials_self_witness:
  "node srv_ready = Some (IpfsNode ''QmLocal'')
   \<and> dialled (fst (Peers_task net_ok srv_ready (Cid ''QmX'') 10)) = [''QmA'', ''QmC'', ''QmD'', ''QmE'']
   \<and> ''QmLocal'' \<notin> set (dialled (fst (Peers_task net_ok srv_ready (Cid ''QmX'') 10)))
   \<and> map NodeID (sent (fst (Peers_task net_ok srv_ready (Cid ''QmX'') 10))) = [''QmA'', ''QmE'']"
proof -
  have n: "node srv_ready = Some (IpfsNode ''QmLocal'')"
    by (simp add: srv_ready_def srv_online_def)
  have t: "Peers_task net_ok srv_ready (Cid ''QmX'') 10 =
       ([FindProvidersAsync (Cid ''QmX'') (10 * Second) 10,
         NewStream ''QmA'' ''/chainkit/0.1.0'',
         Send \<lparr>NodeID = ''QmA'', IP = Some [''10.0.0.2''], TendermintP2PPort = 26656\<rparr>,
         NewStream ''QmC'' ''/chainkit/0.1.0'',
         NewStream ''QmD'' ''/chainkit/0.1.0'',
         UiError ''failed to decode: %v'',
         NewStream ''QmE'' ''/chainkit/0.1.0'',
         Send \<lparr>NodeID = ''QmE'', IP = Some [''10.0.0.6''], TendermintP2PPort = 26656\<rparr>,
         CloseCh], ChannelClosed)"
    using Peers_net_ok by (simp add: Peers_def net_ok_def srv_ready_def)
  have "hostID (IpfsNode ''QmLocal'') \<notin> set (dialled (fst (Peers_task net_ok srv_ready (Cid ''QmX'') 10)))"
    using Peers_never_dials_self [OF _ n, of net_ok "''QmX''" 10] Peers_net_ok t by simp
  with n t show ?thesis by simp
qed

text \<open>
  C7. Let the DHT deliver the providers \<open>xs\<close>, then \<open>b\<close>, then \<open>ys\<close>, where the stream
  to \<open>b\<close> does not open or the reply of \<open>b\<close> does not decode, and let the consumer
  receive what is sent. Then \<open>Peers\<close> returns its channel and no error, the task runs to
  the end of the providers and closes the channel, and the records sent are those of
  the providers of \<open>xs\<close> that answer followed by those of the providers of \<open>ys\<close> that
  answer: \<open>b\<close> is skipped, and nothing after it is lost.
\<close>

theorem Peers_skips_failed_candidate:
  assumes "connectedCh s = ChClosed" and "cidDecode env chainID = Inr c"
    and "node s = Some n" and "dht s = Some dh"
    and "findProvidersAsync env dh c 10 = xs @ b # ys"
    and "newStream env n (ID b) ''/chainkit/0.1.0'' = Inl e
       \<or> (\<exists>st. newStream env n (ID b) ''/chainkit/0.1.0'' = Inr st \<and> decode env st = Inl e)"
    and "length (filter (answers env n) (xs @ ys)) \<le> d"
  shows "\<exists>evs. Peers env s chainID d = Returned (Inr (evs, ChannelClosed))
    \<and> sent evs = map (\<lambda>p. the (snd (Peers_exchange env n p))) (filter (answers env n) xs)
               @ map (\<lambda>p. the (snd (Peers_exchange env n p))) (filter (answers env n) ys)"
proof -
  have nb: "\<not> answers env n b"
    using exchange_None_failed [OF assms(6)] exchange_Some_iff [of env n b] by simp
  have recs: "List.map_filter (\<lambda>p. snd (Peers_exchange env n p)) (xs @ b # ys) =
      map (\<lambda>p. the (snd (Peers_exchange env n p))) (filter (answers env n) xs)
    @ map (\<lambda>p. the (snd (Peers_exchange env n p))) (filter (answers env n) ys)"
    using nb by (simp add: map_filter_answers)
  have len: "length (List.map_filter (\<lambda>p. snd (Peers_exchange env n p)) (xs @ b # ys)) \<le> d"
    using assms(7) by (simp add: recs)
  have flag: "snd (Peers_loop env n d (xs @ b # ys))"
    using len by (simp only: loop_flag)
  have out: "sent (fst (Peers_loop env n d (xs @ b # ys))) =
      map (\<lambda>p. the (snd (Peers_exchange env n p))) (filter (answers env n) xs)
    @ map (\<lambda>p. the (snd (Peers_exchange env n p))) (filter (answers env n) ys)"
    using len by (simp only: loop_sent recs take_all)
  have run: "Peers env s chainID d =
      Returned (Inr (FindProvidersAsync c (10 * Second) 10 #
                     fst (Peers_loop env n d (xs @ b # ys)) @ [CloseCh], ChannelClosed))"
    using assms(1-5) flag by (simp add: Peers_def Peers_task_def emit_def)
  show ?thesis
    using run out by (simp add: sent_append)
qed

text \<open>
  C7, witness: on \<open>net_ok\<close> the stream to \<open>QmC\<close> does not open; \<open>QmE\<close>, which comes
  later, is delivered.
\<close>

theorem Peers_skips_failed_candidate_witness:
  "connectedCh srv_ready = ChClosed \<and> cidDecode net_ok ''QmX'' = Inr (Cid ''QmX'')
   \<and> newStream net_ok (IpfsNode ''QmLocal'') ''QmC'' ''/chainkit/0.1.0'' = Inl (Ext ''dial failed'')
   \<and> (\<exists>evs. Peers net_ok srv_ready ''QmX'' 10 = Returned (Inr (evs, ChannelClosed))
         \<and> sent evs =
             [\<lparr>NodeID = ''QmA'', IP = Some [''10.0.0.2''], TendermintP2PPort = 26656\<rparr>,
              \<lparr>NodeID = ''QmE'', IP = Some [''10.0.0.6''], TendermintP2PPort = 26656\<rparr>])"
proof -
  have c: "cidDecode net_ok ''QmX'' = Inr (Cid ''QmX'')"
    by (simp add: net_ok_def)
  have f: "newStream net_ok (IpfsNode ''QmLocal'')
      (ID \<lparr>ID = ''QmC'', Addrs = [''/ip4/10.0.0.4/tcp/4001'']\<rparr>) ''/chainkit/0.1.0'' =
        Inl (Ext ''dial failed'')
      \<or> (\<exists>st. newStream net_ok (IpfsNode ''QmLocal'')
            (ID \<lparr>ID = ''QmC'', Addrs = [''/ip4/10.0.0.4/tcp/4001'']\<rparr>) ''/chainkit/0.1.0'' = Inr st
          \<and> decode net_ok st = Inl (Ext ''dial failed''))"
    by (simp add: net_ok_def)
  have l: "length (filter (answers net_ok (IpfsNode ''QmLocal''))
      ([\<lparr>ID = ''QmLocal'', Addrs = [''/ip4/10.0.0.1/tcp/4001'']\<rparr>,
        \<lparr>ID = ''QmA'', Addrs = [''/ip4/10.0.0.2/tcp/4001'']\<rparr>,
        \<lparr>ID = ''QmB'', Addrs = []\<rparr>]
       @ [\<lparr>ID = ''QmD'', Addrs = [''/ip4/10.0.0.5/tcp/4001'']\<rparr>,
          \<lparr>ID = ''QmE'', Addrs = [''/ip6/::1/tcp/4001'', ''/ip4/10.0.0.6/tcp/4001'']\<rparr>]))
      \<le> 10"
    by (rule order_trans [OF length_filter_le]) simp
  from Peers_skips_failed_candidate [OF srv_ready_fields(1) c srv_ready_fields(2,3)
      net_ok_providers f l]
  obtain evs where
    e: "Peers net_ok srv_ready ''QmX'' 10 = Returned (Inr (evs, ChannelClosed))"
    by blast
  with Peers_net_ok have "sent evs =
      [\<lparr>NodeID = ''QmA'', IP = Some [''10.0.0.2''], TendermintP2PPort = 26656\<rparr>,
       \<lparr>NodeID = ''QmE'', IP = Some [''10.0.0.6''], TendermintP2PPort = 26656\<rparr>]"
    by auto
  with e have "\<exists>evs. Peers net_ok srv_ready ''QmX'' 10 = Returned (Inr (evs, ChannelClosed))
         \<and> sent evs =
             [\<lparr>NodeID = ''QmA'', IP = Some [''10.0.0.2''], TendermintP2PPort = 26656\<rparr>,
              \<lparr>NodeID = ''QmE'', IP = Some [''10.0.0.6''], TendermintP2PPort = 26656\<rparr>]"
    by blast
  moreover have "newStream net_ok (IpfsNode ''QmLocal'') ''QmC'' ''/chainkit/0.1.0'' =
      Inl (Ext ''dial failed'')"
    by (simp add: net_ok_def)
  ultimately show ?thesis
    using c srv_ready_fields(1) by blast
qed

text \<open>
  C8, as stated, fails: the send on the output channel waits for the consumer and for
  nothing else. With a consumer that receives nothing, the task stays at its first send,
  whatever happens to the query, and the channel is never closed.
\<close>

theorem Peers_blocks_on_send_counterexample:
  "Peers net_ok srv_ready ''QmX'' 0 =
     Returned (Inr ([FindProvidersAsync (Cid ''QmX'') (10 * Second) 10,
                     NewStream ''QmA'' ''/chainkit/0.1.0''], BlockedOnSend))"
  by (simp add: Peers_def Peers_task_def Peers_exchange_def emit_def net_ok_def
      srv_ready_def srv_online_def Let_def go_append_def P_IP4_def)

text \<open>
  C8, amended. A \<open>Peers\<close> that is past the readiness wait and has decoded the identifier
  issues, as its first call, one query for providers with limit 10 and a timeout of 10
  seconds. Provided that every \<open>NewStream\<close> and every \<open>Decode\<close> of the loop returns,
  as the fields of \<open>net_env\<close> do: if the consumer receives every record of the
  providers that answer, the task sends them all and then closes the channel, once, as
  its last action; if the consumer receives fewer, the task sends that many and blocks
  at the next send, and the channel is not closed. Nothing is said of a run in which a
  stream is opened and its reply never comes: \<open>NewStream\<close> runs on the caller's
  context, not on the one with the timeout (line 305), and \<open>Decode\<close> has no deadline
  (line 311).
\<close>

theorem Peers_query_and_close:
  assumes "connectedCh s = ChClosed" and "cidDecode env chainID = Inr c"
    and "node s = Some n" and "dht s = Some dh"
  shows "\<exists>evs fin. Peers env s chainID d =
            Returned (Inr (FindProvidersAsync c (10 * Second) 10 # evs, fin))
    \<and> 10 * Second = 10000000000
    \<and> (length (filter (answers env n) (findProvidersAsync env dh c 10)) \<le> d \<longrightarrow>
         fin = ChannelClosed \<and> (\<exists>pre. evs = pre @ [CloseCh] \<and> CloseCh \<notin> set pre)
       \<and> length (sent evs) = length (filter (answers env n) (findProvidersAsync env dh c 10)))
    \<and> (d < length (filter (answers env n) (findProvidersAsync env dh c 10)) \<longrightarrow>
         fin = BlockedOnSend \<and> CloseCh \<notin> set evs \<and> length (sent evs) = d)"
proof -
  let ?ps = "findProvidersAsync env dh c 10"
  let ?l = "Peers_loop env n d ?ps"
  have flag: "snd ?l = (length (filter (answers env n) ?ps) \<le> d)"
    by (simp add: loop_flag map_filter_answers)
  have out: "length (sent (fst ?l)) = min (length (filter (answers env n) ?ps)) d"
    by (simp add: loop_sent map_filter_answers)
  have nc: "CloseCh \<notin> set (fst ?l)"
    by (rule loop_no_close)
  have sec: "10 * Second = 10000000000"
    by (simp add: Second_def)
  show ?thesis
  proof (cases "snd ?l")
    case True
    then have "Peers env s chainID d =
        Returned (Inr (FindProvidersAsync c (10 * Second) 10 # (fst ?l @ [CloseCh]), ChannelClosed))"
      using assms by (simp add: Peers_def Peers_task_def emit_def)
    then show ?thesis
      using True flag out nc sec by (auto simp add: sent_append)
  next
    case False
    then have "Peers env s chainID d =
        Returned (Inr (FindProvidersAsync c (10 * Second) 10 # fst ?l, BlockedOnSend))"
      using assms by (simp add: Peers_def Peers_task_def emit_def)
    then show ?thesis
      using False flag out nc sec by auto
  qed
qed

text \<open>C8, witness: two providers answer, and the consumer receives up to ten records.\<close>

theorem Peers_query_and_close_witness:
  "connectedCh srv_ready = ChClosed \<and> cidDecode net_ok ''QmX'' = Inr (Cid ''QmX'')
   \<and> node srv_ready = Some (IpfsNode ''QmLocal'') \<and> dht srv_ready = Some (DhtH ''dht'')
   \<and> length (filter (answers net_ok (IpfsNode ''QmLocal''))
               (findProvidersAsync net_ok (DhtH ''dht'') (Cid ''QmX'') 10)) = 2
   \<and> (\<exists>evs. Peers net_ok srv_ready ''QmX'' 10 =
               Returned (Inr (FindProvidersAsync (Cid ''QmX'') (10 * Second) 10 # evs,
                              ChannelClosed))
          \<and> length (sent evs) = 2)"
proof -
  have c: "cidDecode net_ok ''QmX'' = Inr (Cid ''QmX'')"
    by (simp add: net_ok_def)
  have two: "length (filter (answers net_ok (IpfsNode ''QmLocal''))
               (findProvidersAsync net_ok (DhtH ''dht'') (Cid ''QmX'') 10)) = 2"
    using net_ok_answers by (simp add: net_ok_providers)
  from Peers_query_and_close [OF srv_ready_fields(1) c srv_ready_fields(2,3), of 10] two
  have "\<exists>evs. Peers net_ok srv_ready ''QmX'' 10 =
               Returned (Inr (FindProvidersAsync (Cid ''QmX'') (10 * Second) 10 # evs,
                              ChannelClosed))
          \<and> length (sent evs) = 2"
    by auto
  with c two srv_ready_fields show ?thesis
    by simp
qed

text \<open>
  C9. Every record that \<open>Peers\<close> sends has an \<open>IP\<close> list that is not nil: it is the
  list of the reply, or the empty list when the reply has none, followed by the IPv4
  values of the provider's addresses.
\<close>

theorem Peers_records_have_ip_list:
  assumes "Peers env s chainID d = Returned (Inr (evs, fin))"
  shows "(\<forall>r \<in> set (sent evs). \<exists>ips. IP r = Some ips)
    \<and> (\<forall>n p r. snd (Peers_exchange env n p) = Some r \<longrightarrow>
         (\<exists>st r0. newStream env n (ID p) ''/chainkit/0.1.0'' = Inr st \<and> decode env st = Inr r0
            \<and> IP r = Some ((case IP r0 of None \<Rightarrow> [] | Some xs \<Rightarrow> xs)
                            @ ip4_values env (Addrs p))))"
proof -
  from Peers_Returned [OF assms] obtain c where
    t: "Peers_task env s c d = (evs, fin)"
    by blast
  have "\<exists>ips. IP r = Some ips" if "r \<in> set (sent evs)" for r
  proof -
    from that t task_sent [of env s c d] obtain dh n where
      "r \<in> set (sent (fst (Peers_loop env n d (findProvidersAsync env dh c 10))))"
      by (auto split: option.splits)
    then obtain p where "snd (Peers_exchange env n p) = Some r"
      using loop_sent_mem by blast
    from exchange_Some [OF this] show ?thesis by auto
  qed
  moreover have "\<exists>st r0. newStream env n (ID p) ''/chainkit/0.1.0'' = Inr st
      \<and> decode env st = Inr r0
      \<and> IP r = Some ((case IP r0 of None \<Rightarrow> [] | Some xs \<Rightarrow> xs) @ ip4_values env (Addrs p))"
    if "snd (Peers_exchange env n p) = Some r" for n p r
    using exchange_Some [OF that] by auto
  ultimately show ?thesis by blast
qed

text \<open>
  C9, witness: the reply of \<open>QmA\<close> has no \<open>IP\<close> list; the record sent has the address
  observed for it.
\<close>

theorem Peers_records_have_ip_list_witness:
  "decode net_ok (Stream ''QmA'') =
     Inr \<lparr>NodeID = ''QmA'', IP = None, TendermintP2PPort = 26656\<rparr>
   \<and> Peers net_ok srv_ready ''QmX'' 10 =
       Returned (Inr (Peers_task net_ok srv_ready (Cid ''QmX'') 10))
   \<and> map IP (sent (fst (Peers_task net_ok srv_ready (Cid ''QmX'') 10))) =
       [Some [''10.0.0.2''], Some [''10.0.0.6'']]"
proof -
  have t: "Peers net_ok srv_ready ''QmX'' 10 =
      Returned (Inr (Peers_task net_ok srv_ready (Cid ''QmX'') 10))"
    by (simp add: Peers_def net_ok_def srv_ready_def)
  have dc: "decode net_ok (Stream ''QmA'') =
     Inr \<lparr>NodeID = ''QmA'', IP = None, TendermintP2PPort = 26656\<rparr>"
    by (simp add: net_ok_def)
  from Peers_records_have_ip_list [OF Peers_net_ok] Peers_net_ok t dc show ?thesis
    by simp
qed

text \<open>
  C10. For a provider with an empty address list, local or not, the body of the loop
  opens no stream and yields no record, and the loop runs as if the DHT had not
  delivered it.
\<close>

theorem Peers_skips_addressless:
  assumes "Addrs p = []"
  shows "Peers_exchange env n p = ([], None)
    \<and> Peers_loop env n d (xs @ p # ys) = Peers_loop env n d (xs @ ys)"
  using assms exchange_None_addressless [of p env n] loop_drop_silent [of env n p d xs ys]
  by simp

text \<open>C10, witness: \<open>QmB\<close> has no address.\<close>

theorem Peers_skips_addressless_witness:
  "Addrs \<lparr>ID = ''QmB'', Addrs = []\<rparr> = []
   \<and> Peers_loop net_ok (IpfsNode ''QmLocal'') 10
       ([\<lparr>ID = ''QmA'', Addrs = [''/ip4/10.0.0.2/tcp/4001'']\<rparr>]
        @ \<lparr>ID = ''QmB'', Addrs = []\<rparr>
        # [\<lparr>ID = ''QmE'', Addrs = [''/ip6/::1/tcp/4001'', ''/ip4/10.0.0.6/tcp/4001'']\<rparr>]) =
      ([NewStream ''QmA'' ''/chainkit/0.1.0'',
        Send \<lparr>NodeID = ''QmA'', IP = Some [''10.0.0.2''], TendermintP2PPort = 26656\<rparr>,
        NewStream ''QmE'' ''/chainkit/0.1.0'',
        Send \<lparr>NodeID = ''QmE'', IP = Some [''10.0.0.6''], TendermintP2PPort = 26656\<rparr>],
       True)"
proof -
  have a: "Addrs \<lparr>ID = ''QmB'', Addrs = []\<rparr> = []"
    by simp
  have r: "Peers_loop net_ok (IpfsNode ''QmLocal'') 10
       ([\<lparr>ID = ''QmA'', Addrs = [''/ip4/10.0.0.2/tcp/4001'']\<rparr>]
        @ [\<lparr>ID = ''QmE'', Addrs = [''/ip6/::1/tcp/4001'', ''/ip4/10.0.0.6/tcp/4001'']\<rparr>]) =
      ([NewStream ''QmA'' ''/chainkit/0.1.0'',
        Send \<lparr>NodeID = ''QmA'', IP = Some [''10.0.0.2''], TendermintP2PPort = 26656\<rparr>,
        NewStream ''QmE'' ''/chainkit/0.1.0'',
        Send \<lparr>NodeID = ''QmE'', IP = Some [''10.0.0.6''], TendermintP2PPort = 26656\<rparr>],
       True)"
    by (simp add: Peers_exchange_def emit_def net_ok_def Let_def go_append_def P_IP4_def)
  from Peers_skips_addressless [OF a, of net_ok "IpfsNode ''QmLocal''" 10
      "[\<lparr>ID = ''QmA'', Addrs = [''/ip4/10.0.0.2/tcp/4001'']\<rparr>]"
      "[\<lparr>ID = ''QmE'', Addrs = [''/ip6/::1/tcp/4001'', ''/ip4/10.0.0.6/tcp/4001'']\<rparr>]"] r
  show ?thesis
    by simp
qed

end
